theory Spec2Isabelle
  imports Complex_Main
begin

section \<open>JavaScript numbers\<close>

text \<open>
  The numeric routines of the virtual quantum lab compute on JavaScript numbers (IEEE 754
  doubles). The model keeps the special values of that type, because several routines
  reach them: a number is a finite value, one of the two infinities, or NaN. Arithmetic
  on finite values is exact arithmetic on the reals: rounding, overflow and underflow are
  not modelled. The two zeros of IEEE 754 are one value here, and a division by zero takes
  the divisor as the positive zero.
\<close>

datatype jsnum = Fin real | PInf | NInf | NaN

datatype js_error = DomainError | TypeError

definition inf_of_sign :: "real \<Rightarrow> jsnum" where
  "inf_of_sign s = (if 0 < s then PInf else if s < 0 then NInf else NaN)"

fun js_neg :: "jsnum \<Rightarrow> jsnum" where
  "js_neg (Fin a) = Fin (- a)"
| "js_neg PInf = NInf"
| "js_neg NInf = PInf"
| "js_neg NaN = NaN"

fun js_add :: "jsnum \<Rightarrow> jsnum \<Rightarrow> jsnum" where
  "js_add (Fin a) (Fin b) = Fin (a + b)"
| "js_add NaN _ = NaN"
| "js_add _ NaN = NaN"
| "js_add PInf NInf = NaN"
| "js_add NInf PInf = NaN"
| "js_add PInf _ = PInf"
| "js_add _ PInf = PInf"
| "js_add NInf _ = NInf"
| "js_add _ NInf = NInf"

definition js_sub :: "jsnum \<Rightarrow> jsnum \<Rightarrow> jsnum" where
  "js_sub a b = js_add a (js_neg b)"

fun js_mul :: "jsnum \<Rightarrow> jsnum \<Rightarrow> jsnum" where
  "js_mul (Fin a) (Fin b) = Fin (a * b)"
| "js_mul NaN _ = NaN"
| "js_mul _ NaN = NaN"
| "js_mul PInf (Fin b) = inf_of_sign b"
| "js_mul NInf (Fin b) = inf_of_sign (- b)"
| "js_mul (Fin a) PInf = inf_of_sign a"
| "js_mul (Fin a) NInf = inf_of_sign (- a)"
| "js_mul PInf PInf = PInf"
| "js_mul PInf NInf = NInf"
| "js_mul NInf PInf = NInf"
| "js_mul NInf NInf = PInf"

fun js_div :: "jsnum \<Rightarrow> jsnum \<Rightarrow> jsnum" where
  "js_div (Fin a) (Fin b) = (if b = 0 then inf_of_sign a else Fin (a / b))"
| "js_div NaN _ = NaN"
| "js_div _ NaN = NaN"
| "js_div (Fin a) _ = Fin 0"
| "js_div PInf (Fin b) = (if 0 \<le> b then PInf else NInf)"
| "js_div NInf (Fin b) = (if 0 \<le> b then NInf else PInf)"
| "js_div _ _ = NaN"

text \<open>\<^verbatim>\<open>Math.sqrt\<close>, \<^verbatim>\<open>Math.exp\<close>, \<^verbatim>\<open>Math.sin\<close>, \<^verbatim>\<open>Math.cos\<close>, \<^verbatim>\<open>Math.abs\<close>,
  \<^verbatim>\<open>Math.min\<close> and \<^verbatim>\<open>Math.max\<close>.\<close>

fun js_sqrt :: "jsnum \<Rightarrow> jsnum" where
  "js_sqrt (Fin a) = (if a < 0 then NaN else Fin (sqrt a))"
| "js_sqrt PInf = PInf"
| "js_sqrt NInf = NaN"
| "js_sqrt NaN = NaN"

fun js_exp :: "jsnum \<Rightarrow> jsnum" where
  "js_exp (Fin a) = Fin (exp a)"
| "js_exp PInf = PInf"
| "js_exp NInf = Fin 0"
| "js_exp NaN = NaN"

fun js_sin :: "jsnum \<Rightarrow> jsnum" where
  "js_sin (Fin a) = Fin (sin a)"
| "js_sin _ = NaN"

fun js_cos :: "jsnum \<Rightarrow> jsnum" where
  "js_cos (Fin a) = Fin (cos a)"
| "js_cos _ = NaN"

fun js_abs :: "jsnum \<Rightarrow> jsnum" where
  "js_abs (Fin a) = Fin \<bar>a\<bar>"
| "js_abs PInf = PInf"
| "js_abs NInf = PInf"
| "js_abs NaN = NaN"

text \<open>The comparisons \<^verbatim>\<open><\<close>, \<^verbatim>\<open>>\<close>, \<^verbatim>\<open><=\<close>, \<^verbatim>\<open>>=\<close>: each is false when an operand is NaN.\<close>

fun js_lt :: "jsnum \<Rightarrow> jsnum \<Rightarrow> bool" where
  "js_lt (Fin a) (Fin b) = (a < b)"
| "js_lt NaN _ = False"
| "js_lt _ NaN = False"
| "js_lt PInf _ = False"
| "js_lt _ NInf = False"
| "js_lt _ _ = True"

definition js_gt :: "jsnum \<Rightarrow> jsnum \<Rightarrow> bool" where
  "js_gt a b = js_lt b a"

definition js_le :: "jsnum \<Rightarrow> jsnum \<Rightarrow> bool" where
  "js_le a b = (a \<noteq> NaN \<and> b \<noteq> NaN \<and> \<not> js_lt b a)"

definition js_ge :: "jsnum \<Rightarrow> jsnum \<Rightarrow> bool" where
  "js_ge a b = js_le b a"

definition js_min :: "jsnum \<Rightarrow> jsnum \<Rightarrow> jsnum" where
  "js_min a b = (if a = NaN \<or> b = NaN then NaN else if js_lt b a then b else a)"

definition js_max :: "jsnum \<Rightarrow> jsnum \<Rightarrow> jsnum" where
  "js_max a b = (if a = NaN \<or> b = NaN then NaN else if js_lt a b then b else a)"

text \<open>Truthiness of a number: zero and NaN are falsy. \<open>num_or p d\<close> is \<^verbatim>\<open>p || d\<close> for
  a property \<open>p\<close> that may be absent (\<^verbatim>\<open>undefined\<close> is falsy); \<open>num_prop p\<close> is a property read
  and used as a number with no default (\<^verbatim>\<open>undefined\<close> converts to NaN).\<close>

fun truthy :: "jsnum \<Rightarrow> bool" where
  "truthy (Fin a) = (a \<noteq> 0)"
| "truthy NaN = False"
| "truthy _ = True"

definition js_or :: "jsnum \<Rightarrow> jsnum \<Rightarrow> jsnum" where
  "js_or a d = (if truthy a then a else d)"

fun num_or :: "jsnum option \<Rightarrow> jsnum \<Rightarrow> jsnum" where
  "num_or None d = d"
| "num_or (Some a) d = js_or a d"

fun num_prop :: "jsnum option \<Rightarrow> jsnum" where
  "num_prop None = NaN"
| "num_prop (Some a) = a"

text \<open>\<open>obj_or o d\<close> is \<^verbatim>\<open>o || d\<close> for a property \<open>o\<close> that holds an object when present:
  an object is truthy, an absent property is not.\<close>

fun obj_or :: "'a option \<Rightarrow> 'a \<Rightarrow> 'a" where
  "obj_or None d = d"
| "obj_or (Some a) d = a"

definition is_fin :: "jsnum \<Rightarrow> bool" where
  "is_fin a = (case a of Fin _ \<Rightarrow> True | _ \<Rightarrow> False)"

section \<open>Quantum and relativity formulas (physicsFormulas.js)\<close>

text \<open>
  \<^verbatim>\<open>QuantumFormulas.tunnelingProbability\<close>. The source has two \<^verbatim>\<open>return\<close> statements and no
  \<^verbatim>\<open>throw\<close>; a completion is \<open>Inr\<close> of the returned number, and \<open>Inl\<close> would be a thrown
  error.
\<close>

definition hbar :: real where
  "hbar = 1.0545718 / 10 ^ 34"

definition tunnelingProbability ::
  "jsnum \<Rightarrow> jsnum \<Rightarrow> jsnum \<Rightarrow> jsnum \<Rightarrow> js_error + jsnum" where
  "tunnelingProbability energy barrierHeight barrierWidth mass =
     (if js_ge energy barrierHeight then Inr (Fin 1)
      else
        let kappa = js_div (js_sqrt (js_mul (js_mul (Fin 2) mass) (js_sub barrierHeight energy)))
                      (Fin hbar)
        in Inr (js_exp (js_mul (js_mul (js_neg (Fin 2)) kappa) barrierWidth)))"

text \<open>\<^verbatim>\<open>RelativityFormulas.gamma\<close>; the second parameter has the default value \<^verbatim>\<open>3e8\<close>.
  A default parameter value applies when the argument is absent.\<close>

fun default_arg :: "'a option \<Rightarrow> 'a \<Rightarrow> 'a" where
  "default_arg None d = d"
| "default_arg (Some a) d = a"

definition gamma :: "jsnum \<Rightarrow> jsnum option \<Rightarrow> js_error + jsnum" where
  "gamma velocity c_opt =
     (let c = default_arg c_opt (Fin 300000000);
          beta = js_div velocity c
      in Inr (js_div (Fin 1) (js_sqrt (js_sub (Fin 1) (js_mul beta beta)))))"

section \<open>Collision detection and response (collisionDetection.js)\<close>

text \<open>
  A plain object \<^verbatim>\<open>{x, y, z}\<close> whose \<^verbatim>\<open>z\<close> may be absent (the code reads it as
  \<^verbatim>\<open>v.z || 0\<close>); the fields are named \<open>xc\<close>, \<open>yc\<close>, \<open>zc\<close>. A body's \<^verbatim>\<open>size\<close> is
  the field \<open>bsize\<close>.
\<close>

record vec =
  xc :: jsnum
  yc :: jsnum
  zc :: "jsnum option"

record box_size =
  width :: jsnum
  height :: jsnum
  depth :: "jsnum option"

record body =
  position :: vec
  velocity :: "vec option"
  mass :: "jsnum option"
  radius :: "jsnum option"
  restitution :: "jsnum option"
  shape :: "string option"
  bsize :: "box_size option"

record collision =
  isColliding :: bool
  distance :: jsnum
  minDistance :: "jsnum option"
  normal :: vec
  overlap :: jsnum

record resolution =
  velocity1 :: vec
  velocity2 :: vec

definition vec3 :: "jsnum \<Rightarrow> jsnum \<Rightarrow> jsnum \<Rightarrow> vec" where
  "vec3 a b c = \<lparr>xc = a, yc = b, zc = Some c\<rparr>"

definition checkCircleCollision :: "body \<Rightarrow> body \<Rightarrow> collision" where
  "checkCircleCollision obj1 obj2 =
     (let dx = js_sub (xc (position obj2)) (xc (position obj1));
          dy = js_sub (yc (position obj2)) (yc (position obj1));
          dz = js_sub (num_or (zc (position obj2)) (Fin 0)) (num_or (zc (position obj1)) (Fin 0));
          dist = js_sqrt (js_add (js_add (js_mul dx dx) (js_mul dy dy)) (js_mul dz dz));
          minDist = js_add (num_or (radius obj1) (Fin 0.5)) (num_or (radius obj2) (Fin 0.5))
      in \<lparr>isColliding = js_lt dist minDist,
          distance = dist,
          minDistance = Some minDist,
          normal = (if js_gt dist (Fin 0)
                    then vec3 (js_div dx dist) (js_div dy dist) (js_div dz dist)
                    else vec3 (Fin 1) (Fin 0) (Fin 0)),
          overlap = js_max (Fin 0) (js_sub minDist dist)\<rparr>)"

definition checkBoxCollision :: "body \<Rightarrow> body \<Rightarrow> bool" where
  "checkBoxCollision obj1 obj2 =
     (let size1 = obj_or (bsize obj1) \<lparr>width = Fin 1, height = Fin 1, depth = Some (Fin 1)\<rparr>;
          size2 = obj_or (bsize obj2) \<lparr>width = Fin 1, height = Fin 1, depth = Some (Fin 1)\<rparr>
      in js_lt (xc (position obj1)) (js_add (xc (position obj2)) (width size2)) \<and>
         js_gt (js_add (xc (position obj1)) (width size1)) (xc (position obj2)) \<and>
         js_lt (yc (position obj1)) (js_add (yc (position obj2)) (height size2)) \<and>
         js_gt (js_add (yc (position obj1)) (height size1)) (yc (position obj2)) \<and>
         js_lt (num_or (zc (position obj1)) (Fin 0))
               (js_add (num_or (zc (position obj2)) (Fin 0)) (num_or (depth size2) (Fin 1))) \<and>
         js_gt (js_add (num_or (zc (position obj1)) (Fin 0)) (num_or (depth size1) (Fin 1)))
               (num_or (zc (position obj2)) (Fin 0)))"

text \<open>\<^verbatim>\<open>obj.shape || 'circle'\<close>: the empty string is falsy.\<close>

fun shape_or_circle :: "string option \<Rightarrow> string" where
  "shape_or_circle None = ''circle''"
| "shape_or_circle (Some s) = (if s = [] then ''circle'' else s)"

definition checkCollision :: "body \<Rightarrow> body \<Rightarrow> collision" where
  "checkCollision obj1 obj2 =
     (let shape1 = shape_or_circle (shape obj1);
          shape2 = shape_or_circle (shape obj2)
      in if shape1 = ''circle'' \<and> shape2 = ''circle'' then checkCircleCollision obj1 obj2
         else if shape1 = ''box'' \<and> shape2 = ''box'' then
           \<lparr>isColliding = checkBoxCollision obj1 obj2,
            distance = Fin 0,
            minDistance = None,
            normal = vec3 (Fin 0) (Fin 0) (Fin 0),
            overlap = Fin 0\<rparr>
         else
           let circle = (if shape1 = ''circle'' then obj1 else obj2);
               box = (if shape1 = ''box'' then obj1 else obj2);
               sz = obj_or (bsize box) \<lparr>width = Fin 1, height = Fin 1, depth = None\<rparr>;
               closestX = js_max (xc (position box))
                            (js_min (xc (position circle)) (js_add (xc (position box)) (width sz)));
               closestY = js_max (yc (position box))
                            (js_min (yc (position circle)) (js_add (yc (position box)) (height sz)));
               dx = js_sub (xc (position circle)) closestX;
               dy = js_sub (yc (position circle)) closestY;
               dist = js_sqrt (js_add (js_mul dx dx) (js_mul dy dy));
               rad = num_or (radius circle) (Fin 0.5)
           in \<lparr>isColliding = js_lt dist rad,
               distance = dist,
               minDistance = None,
               normal = (if js_gt dist (Fin 0)
                         then vec3 (js_div dx dist) (js_div dy dist) (Fin 0)
                         else vec3 (Fin 1) (Fin 0) (Fin 0)),
               overlap = js_max (Fin 0) (js_sub rad dist)\<rparr>)"

text \<open>
  \<^verbatim>\<open>resolveCollision\<close>. The relative velocity along the normal is the local
  \<^verbatim>\<open>velAlongNormal\<close> of the source, given a name of its own here, and \<open>zero_velocity\<close>
  is the literal \<^verbatim>\<open>{ x: 0, y: 0, z: 0 }\<close> that stands in for an absent velocity.
\<close>

definition zero_velocity :: vec where
  "zero_velocity = vec3 (Fin 0) (Fin 0) (Fin 0)"

definition velAlongNormal :: "vec \<Rightarrow> vec \<Rightarrow> vec \<Rightarrow> jsnum" where
  "velAlongNormal v1 v2 n =
     (let rvx = js_sub (xc v2) (xc v1);
          rvy = js_sub (yc v2) (yc v1);
          rvz = js_sub (num_or (zc v2) (Fin 0)) (num_or (zc v1) (Fin 0))
      in js_add (js_add (js_mul rvx (xc n)) (js_mul rvy (yc n))) (js_mul rvz (num_prop (zc n))))"

definition resolveCollision :: "body \<Rightarrow> body \<Rightarrow> collision \<Rightarrow> resolution" where
  "resolveCollision obj1 obj2 col =
     (if \<not> isColliding col then
        \<lparr>velocity1 = obj_or (velocity obj1) zero_velocity,
         velocity2 = obj_or (velocity obj2) zero_velocity\<rparr>
      else
        let v1 = obj_or (velocity obj1) zero_velocity;
            v2 = obj_or (velocity obj2) zero_velocity;
            m1 = num_or (mass obj1) (Fin 1);
            m2 = num_or (mass obj2) (Fin 1);
            n = normal col;
            van = velAlongNormal v1 v2 n
        in if js_gt van (Fin 0) then \<lparr>velocity1 = v1, velocity2 = v2\<rparr>
           else
             let e = js_min (num_or (restitution obj1) (Fin 0.8))
                            (num_or (restitution obj2) (Fin 0.8));
                 j = js_div (js_mul (js_neg (js_add (Fin 1) e)) van)
                            (js_add (js_div (Fin 1) m1) (js_div (Fin 1) m2));
                 impulse = vec3 (js_mul j (xc n)) (js_mul j (yc n)) (js_mul j (num_prop (zc n)))
             in \<lparr>velocity1 =
                   vec3 (js_sub (xc v1) (js_div (xc impulse) m1))
                        (js_sub (yc v1) (js_div (yc impulse) m1))
                        (js_sub (num_or (zc v1) (Fin 0)) (js_div (num_prop (zc impulse)) m1)),
                 velocity2 =
                   vec3 (js_add (xc v2) (js_div (xc impulse) m2))
                        (js_add (yc v2) (js_div (yc impulse) m2))
                        (js_add (num_or (zc v2) (Fin 0)) (js_div (num_prop (zc impulse)) m2))\<rparr>)"

text \<open>The three numbers of a vector as the code reads them, \<^verbatim>\<open>v.z || 0\<close> for the third.\<close>

definition vec_num :: "vec \<Rightarrow> jsnum \<times> jsnum \<times> jsnum" where
  "vec_num v = (xc v, yc v, num_or (zc v) (Fin 0))"

text \<open>\<^verbatim>\<open>ClassicalFormulas.momentum\<close> and \<^verbatim>\<open>ClassicalFormulas.kineticEnergy\<close>
  (physicsFormulas.js); the velocity argument of the latter is a number or an object.\<close>

definition momentum :: "jsnum \<Rightarrow> vec \<Rightarrow> vec" where
  "momentum m v =
     vec3 (js_mul m (js_or (xc v) (Fin 0))) (js_mul m (js_or (yc v) (Fin 0)))
          (js_mul m (num_or (zc v) (Fin 0)))"

datatype velocity_arg = Speed jsnum | Velocity vec

definition js_square :: "jsnum \<Rightarrow> jsnum" where
  "js_square a = js_mul a a"

definition kineticEnergy :: "jsnum \<Rightarrow> velocity_arg \<Rightarrow> jsnum" where
  "kineticEnergy m v =
     (let speed = (case v of
                     Speed s \<Rightarrow> s
                   | Velocity u \<Rightarrow>
                       js_sqrt (js_add (js_add (js_square (js_or (xc u) (Fin 0)))
                                               (js_square (js_or (yc u) (Fin 0))))
                                       (js_square (num_or (zc u) (Fin 0)))))
      in js_mul (js_mul (js_mul (Fin 0.5) m) speed) speed)"

text \<open>The invariants of a Body in the data model: a mass, when given, is a finite positive
  number, and a restitution lies in [0, 1].\<close>

definition valid_mass :: "jsnum option \<Rightarrow> bool" where
  "valid_mass m = (case m of None \<Rightarrow> True | Some a \<Rightarrow> is_fin a \<and> js_gt a (Fin 0))"

definition valid_restitution :: "jsnum option \<Rightarrow> bool" where
  "valid_restitution e =
     (case e of None \<Rightarrow> True | Some a \<Rightarrow> js_ge a (Fin 0) \<and> js_le a (Fin 1))"

definition finite_vec :: "vec \<Rightarrow> bool" where
  "finite_vec v = (is_fin (xc v) \<and> is_fin (yc v) \<and> is_fin (num_or (zc v) (Fin 0)))"

text \<open>The component of a velocity along a normal, in the form of the source's
  \<^verbatim>\<open>velAlongNormal\<close>; the total momentum and the total kinetic energy of two bodies, by
  the two formulas of \<^verbatim>\<open>ClassicalFormulas\<close>.\<close>

definition normal_component :: "vec \<Rightarrow> vec \<Rightarrow> jsnum" where
  "normal_component v n =
     js_add (js_add (js_mul (xc v) (xc n)) (js_mul (yc v) (yc n)))
            (js_mul (num_or (zc v) (Fin 0)) (num_prop (zc n)))"

definition total_momentum :: "jsnum \<Rightarrow> vec \<Rightarrow> jsnum \<Rightarrow> vec \<Rightarrow> jsnum \<times> jsnum \<times> jsnum" where
  "total_momentum m1 v1 m2 v2 =
     (let p1 = momentum m1 v1; p2 = momentum m2 v2
      in (js_add (xc p1) (xc p2), js_add (yc p1) (yc p2),
          js_add (num_prop (zc p1)) (num_prop (zc p2))))"

definition total_kinetic_energy :: "jsnum \<Rightarrow> vec \<Rightarrow> jsnum \<Rightarrow> vec \<Rightarrow> jsnum" where
  "total_kinetic_energy m1 v1 m2 v2 =
     js_add (kineticEnergy m1 (Velocity v1)) (kineticEnergy m2 (Velocity v2))"

text \<open>Two sample bodies on the x axis, at a given position and with a given velocity: a
  ball of radius 1 and restitution 1, and a box of the default size.\<close>

definition ball :: "real \<Rightarrow> real \<Rightarrow> body" where
  "ball p u =
     \<lparr>position = vec3 (Fin p) (Fin 0) (Fin 0),
      velocity = Some (vec3 (Fin u) (Fin 0) (Fin 0)),
      mass = None, radius = Some (Fin 1), restitution = Some (Fin 1),
      shape = None, bsize = None\<rparr>"

definition crate :: "real \<Rightarrow> real \<Rightarrow> body" where
  "crate p u =
     \<lparr>position = vec3 (Fin p) (Fin 0) (Fin 0),
      velocity = Some (vec3 (Fin u) (Fin 0) (Fin 0)),
      mass = None, radius = None, restitution = None,
      shape = Some ''box'', bsize = None\<rparr>"

section \<open>Wave interference (WaveInterferenceVisualization.jsx)\<close>

text \<open>A wave source; its \<^verbatim>\<open>position\<close> is the field \<open>source_position\<close>. The result
  of \<^verbatim>\<open>calculateInterference\<close> is the object \<^verbatim>\<open>{ amplitude: totalAmplitude, intensity:
  totalIntensity }\<close>, with fields named after the two locals.\<close>

record wave_source =
  source_position :: vec
  amplitude :: jsnum
  wavelength :: jsnum
  frequency :: jsnum
  phase :: "jsnum option"

record interference =
  totalAmplitude :: jsnum
  totalIntensity :: jsnum

text \<open>The locals \<^verbatim>\<open>distance\<close>, \<^verbatim>\<open>phase\<close> and \<^verbatim>\<open>amplitudeAtPoint\<close> of the loop bodies.\<close>

definition source_distance :: "jsnum \<Rightarrow> jsnum \<Rightarrow> wave_source \<Rightarrow> jsnum" where
  "source_distance x y source =
     (let dx = js_sub x (xc (source_position source));
          dy = js_sub y (yc (source_position source))
      in js_sqrt (js_add (js_mul dx dx) (js_mul dy dy)))"

definition source_phase :: "jsnum \<Rightarrow> jsnum \<Rightarrow> wave_source \<Rightarrow> jsnum \<Rightarrow> jsnum" where
  "source_phase x y source t =
     js_add (js_mul (js_mul (Fin 2) (Fin pi))
               (js_sub (js_div (source_distance x y source) (wavelength source))
                       (js_mul (frequency source) t)))
            (num_or (phase source) (Fin 0))"

definition amplitudeAtPoint :: "jsnum \<Rightarrow> jsnum \<Rightarrow> wave_source \<Rightarrow> jsnum" where
  "amplitudeAtPoint x y source =
     js_div (amplitude source) (js_add (Fin 1) (js_mul (source_distance x y source) (Fin 0.1)))"

text \<open>The first \<^verbatim>\<open>forEach\<close> accumulates \<^verbatim>\<open>totalAmplitude\<close> and pushes each phase; the
  second, run when there is more than one source, reads \<^verbatim>\<open>phases[idx]\<close>, the phase pushed
  for the source of the same index.\<close>

definition calculateInterference ::
  "jsnum \<Rightarrow> jsnum \<Rightarrow> wave_source list \<Rightarrow> jsnum \<Rightarrow> interference" where
  "calculateInterference x y sources t =
     (let (amp, phases) =
            fold (\<lambda>source (acc, phs).
                    (js_add acc (js_mul (amplitudeAtPoint x y source)
                                        (js_sin (source_phase x y source t))),
                     phs @ [source_phase x y source t]))
                 sources (Fin 0, []);
          inten =
            (if 1 < length sources then
               let (realPart, imagPart) =
                     fold (\<lambda>(source, ph) (re, im).
                             (js_add re (js_mul (amplitudeAtPoint x y source) (js_cos ph)),
                              js_add im (js_mul (amplitudeAtPoint x y source) (js_sin ph))))
                          (zip sources phases) (Fin 0, Fin 0)
               in js_add (js_mul realPart realPart) (js_mul imagPart imagPart)
             else js_mul amp amp)
      in \<lparr>totalAmplitude = amp, totalIntensity = inten\<rparr>)"

text \<open>A source of amplitude 1, wavelength 1, frequency 1 and phase 0 at a given place; a
  source whose fields are finite numbers, with a wavelength other than 0.\<close>

definition unit_source :: "real \<Rightarrow> real \<Rightarrow> wave_source" where
  "unit_source a b =
     \<lparr>source_position = \<lparr>xc = Fin a, yc = Fin b, zc = None\<rparr>,
      amplitude = Fin 1, wavelength = Fin 1, frequency = Fin 1, phase = Some (Fin 0)\<rparr>"

definition finite_source :: "wave_source \<Rightarrow> bool" where
  "finite_source s =
     (is_fin (xc (source_position s)) \<and> is_fin (yc (source_position s)) \<and>
      is_fin (amplitude s) \<and> is_fin (wavelength s) \<and> wavelength s \<noteq> Fin 0 \<and>
      is_fin (frequency s) \<and> is_fin (num_or (phase s) (Fin 0)))"

section \<open>Field lines (ElectricFieldVisualization)\<close>

text \<open>
  \<^verbatim>\<open>THREE.Vector3\<close> of the three.js library: the constructor (an absent \<^verbatim>\<open>z\<close> argument
  takes the default 0), \<^verbatim>\<open>multiplyScalar\<close>, \<^verbatim>\<open>add\<close> and \<^verbatim>\<open>distanceTo\<close>.
\<close>

datatype vector3 = Vector3 (v3x: jsnum) (v3y: jsnum) (v3z: jsnum)

text \<open>A charge \<^verbatim>\<open>{ position, q }\<close>, with the fields \<open>charge_position\<close> and \<open>charge_q\<close>.
  The loop of \<^verbatim>\<open>calculateFieldLine\<close> leaves through one of three \<^verbatim>\<open>break\<close> conditions or
  by reaching \<^verbatim>\<open>maxSteps\<close>; \<open>stop\<close> records which. The second \<^verbatim>\<open>break\<close> of the source tests
  \<^verbatim>\<open>tooClose || |x| > 15 || |y| > 15\<close>: it is \<open>Absorbed\<close> when \<^verbatim>\<open>tooClose\<close> holds and
  \<open>OutOfBox\<close> otherwise.\<close>

record charge =
  charge_position :: vec
  charge_q :: jsnum

datatype stop = FieldTooWeak | Absorbed | OutOfBox | MaxSteps

definition new_Vector3 :: "vec \<Rightarrow> vector3" where
  "new_Vector3 p = Vector3 (xc p) (yc p) (default_arg (zc p) (Fin 0))"

definition multiplyScalar :: "vector3 \<Rightarrow> jsnum \<Rightarrow> vector3" where
  "multiplyScalar v s = Vector3 (js_mul (v3x v) s) (js_mul (v3y v) s) (js_mul (v3z v) s)"

definition v3_add :: "vector3 \<Rightarrow> vector3 \<Rightarrow> vector3" where
  "v3_add a b = Vector3 (js_add (v3x a) (v3x b)) (js_add (v3y a) (v3y b)) (js_add (v3z a) (v3z b))"

definition distanceTo :: "vector3 \<Rightarrow> vector3 \<Rightarrow> jsnum" where
  "distanceTo a b =
     (let dx = js_sub (v3x a) (v3x b); dy = js_sub (v3y a) (v3y b); dz = js_sub (v3z a) (v3z b)
      in js_sqrt (js_add (js_add (js_mul dx dx) (js_mul dy dy)) (js_mul dz dz)))"

text \<open>The constant \<^verbatim>\<open>k = 8.99e9\<close>; the distance of the current point from a charge as the
  first \<^verbatim>\<open>forEach\<close> computes it (the local \<^verbatim>\<open>distance\<close>); the body of that \<^verbatim>\<open>forEach\<close>,
  which adds the field of one charge; and the second \<^verbatim>\<open>forEach\<close>, which sets
  \<^verbatim>\<open>tooClose\<close>.\<close>

definition coulomb_k :: real where
  "coulomb_k = 8990000000"

definition field_distance :: "vector3 \<Rightarrow> charge \<Rightarrow> jsnum" where
  "field_distance currentPoint c =
     (let dx = js_sub (v3x currentPoint) (xc (charge_position c));
          dy = js_sub (v3y currentPoint) (yc (charge_position c));
          dz = js_sub (js_or (v3z currentPoint) (Fin 0)) (num_or (zc (charge_position c)) (Fin 0))
      in js_sqrt (js_add (js_add (js_mul dx dx) (js_mul dy dy)) (js_mul dz dz)))"

definition add_charge_field ::
  "vector3 \<Rightarrow> charge \<Rightarrow> jsnum \<times> jsnum \<times> jsnum \<Rightarrow> jsnum \<times> jsnum \<times> jsnum" where
  "add_charge_field currentPoint c field =
     (case field of (fieldX, fieldY, fieldZ) \<Rightarrow>
        let dx = js_sub (v3x currentPoint) (xc (charge_position c));
            dy = js_sub (v3y currentPoint) (yc (charge_position c));
            dz = js_sub (js_or (v3z currentPoint) (Fin 0)) (num_or (zc (charge_position c)) (Fin 0));
            distanceSq = js_add (js_add (js_mul dx dx) (js_mul dy dy)) (js_mul dz dz);
            dist = js_sqrt distanceSq
        in if js_lt dist (Fin 0.3) then (fieldX, fieldY, fieldZ)
           else
             let fieldMagnitude = js_div (js_mul (Fin coulomb_k) (charge_q c)) distanceSq
             in (js_add fieldX (js_mul fieldMagnitude (js_div dx dist)),
                 js_add fieldY (js_mul fieldMagnitude (js_div dy dist)),
                 js_add fieldZ (js_mul fieldMagnitude (js_div dz dist))))"

definition total_field :: "vector3 \<Rightarrow> charge list \<Rightarrow> jsnum \<times> jsnum \<times> jsnum" where
  "total_field currentPoint charges = fold (add_charge_field currentPoint) charges (Fin 0, Fin 0, Fin 0)"

definition too_close :: "vector3 \<Rightarrow> charge list \<Rightarrow> bool" where
  "too_close nextPoint charges =
     fold (\<lambda>c tooClose.
             if js_lt (distanceTo nextPoint (new_Vector3 (charge_position c))) (Fin 0.3) then True
             else tooClose)
          charges False"

text \<open>The \<^verbatim>\<open>for\<close> loop, by the number of iterations left; \<^verbatim>\<open>maxSteps\<close> is a natural
  number with the default 200, \<^verbatim>\<open>stepSize\<close> has the default 0.1. \<open>trace_field_line\<close> is
  the function with the reason for stopping, \<open>calculateFieldLine\<close> its list of points.\<close>

fun field_line_loop ::
  "charge list \<Rightarrow> jsnum \<Rightarrow> nat \<Rightarrow> vector3 list \<Rightarrow> vector3 list \<times> stop" where
  "field_line_loop charges stepSize 0 points = (points, MaxSteps)"
| "field_line_loop charges stepSize (Suc n) points =
     (let currentPoint = last points in
      case total_field currentPoint charges of (fieldX, fieldY, fieldZ) \<Rightarrow>
        let fieldMagnitude =
              js_sqrt (js_add (js_add (js_mul fieldX fieldX) (js_mul fieldY fieldY))
                              (js_mul fieldZ fieldZ))
        in if js_lt fieldMagnitude (Fin 0.01) then (points, FieldTooWeak)
           else
             let direction = Vector3 (js_div fieldX fieldMagnitude) (js_div fieldY fieldMagnitude)
                               (js_div fieldZ fieldMagnitude);
                 nextPoint = v3_add currentPoint (multiplyScalar direction stepSize)
             in if too_close nextPoint charges then (points, Absorbed)
                else if js_gt (js_abs (v3x nextPoint)) (Fin 15) \<or>
                        js_gt (js_abs (v3y nextPoint)) (Fin 15) then (points, OutOfBox)
                else field_line_loop charges stepSize n (points @ [nextPoint]))"

definition trace_field_line ::
  "vec \<Rightarrow> charge list \<Rightarrow> nat option \<Rightarrow> jsnum option \<Rightarrow> vector3 list \<times> stop" where
  "trace_field_line startPoint charges maxSteps stepSize =
     field_line_loop charges (default_arg stepSize (Fin 0.1)) (default_arg maxSteps 200)
       [new_Vector3 startPoint]"

definition calculateFieldLine ::
  "vec \<Rightarrow> charge list \<Rightarrow> nat option \<Rightarrow> jsnum option \<Rightarrow> vector3 list" where
  "calculateFieldLine startPoint charges maxSteps stepSize =
     fst (trace_field_line startPoint charges maxSteps stepSize)"

text \<open>A place whose coordinates are finite numbers; a charge at the origin; a seed point
  in the plane \<^verbatim>\<open>z = 0\<close>.\<close>

definition finite_place :: "vec \<Rightarrow> bool" where
  "finite_place p = (is_fin (xc p) \<and> is_fin (yc p) \<and> is_fin (default_arg (zc p) (Fin 0)))"

definition point_charge :: "real \<Rightarrow> charge" where
  "point_charge qv = \<lparr>charge_position = vec3 (Fin 0) (Fin 0) (Fin 0), charge_q = Fin qv\<rparr>"

definition seed_point :: "real \<Rightarrow> real \<Rightarrow> vec" where
  "seed_point a b = \<lparr>xc = Fin a, yc = Fin b, zc = None\<rparr>"

section \<open>Arithmetic on finite numbers\<close>

lemma js_ge_Fin [simp]: "js_ge (Fin a) (Fin b) = (b \<le> a)"
  by (auto simp: js_ge_def js_le_def)

lemma js_le_Fin [simp]: "js_le (Fin a) (Fin b) = (a \<le> b)"
  by (auto simp: js_le_def)

lemma js_gt_Fin [simp]: "js_gt (Fin a) (Fin b) = (b < a)"
  by (auto simp: js_gt_def)

lemma js_sub_Fin [simp]: "js_sub (Fin a) (Fin b) = Fin (a - b)"
  by (simp add: js_sub_def)

lemma js_gt_zero_cases: "js_gt a (Fin 0) \<Longrightarrow> (\<exists>r. a = Fin r \<and> 0 < r) \<or> a = PInf"
  by (cases a) (simp_all add: js_gt_def)

lemma js_ge_zero_cases: "js_ge a (Fin 0) \<Longrightarrow> (\<exists>r. a = Fin r \<and> 0 \<le> r) \<or> a = PInf"
  by (cases a) (simp_all add: js_ge_def js_le_def)

lemma js_or_Fin_zero [simp]: "js_or (Fin a) (Fin 0) = Fin a"
  by (simp add: js_or_def)

lemma inf_of_sign_not_Fin [simp]: "inf_of_sign s \<noteq> Fin r"
  by (simp add: inf_of_sign_def)

lemma js_add_eq_Fin: "js_add a b = Fin c \<Longrightarrow> \<exists>x y. a = Fin x \<and> b = Fin y \<and> c = x + y"
  by (cases a; cases b) auto

lemma js_neg_eq_Fin: "js_neg a = Fin c \<Longrightarrow> \<exists>x. a = Fin x \<and> c = - x"
  by (cases a) auto

lemma js_sub_eq_Fin: "js_sub a b = Fin c \<Longrightarrow> \<exists>x y. a = Fin x \<and> b = Fin y \<and> c = x - y"
  unfolding js_sub_def by (cases a; cases b) auto

lemma js_mul_eq_Fin: "js_mul a b = Fin c \<Longrightarrow> \<exists>x y. a = Fin x \<and> b = Fin y \<and> c = x * y"
  by (cases a; cases b) auto

section \<open>Barrier tunnelling\<close>

lemma hbar_pos: "0 < hbar"
  by (simp add: hbar_def)

text \<open>On inputs with a positive width, a positive mass and numbers for the two energies,
  the value returned is finite and lies in the unit interval. No clamp produces this: the
  exponent is negative or minus infinity.\<close>

lemma tunneling_range:
  assumes w: "js_gt w (Fin 0)" and m: "js_gt m (Fin 0)"
    and e: "energy \<noteq> NaN" and v: "barrierHeight \<noteq> NaN"
  shows "\<exists>t. tunnelingProbability energy barrierHeight w m = Inr (Fin t) \<and> 0 \<le> t \<and> t \<le> 1"
proof (cases "js_ge energy barrierHeight")
  case True
  then show ?thesis by (simp add: tunnelingProbability_def)
next
  case False
  define d where "d = js_sub barrierHeight energy"
  define s where "s = js_sqrt (js_mul (js_mul (Fin 2) m) d)"
  define kappa where "kappa = js_div s (Fin hbar)"
  define a where "a = js_mul (js_mul (js_neg (Fin 2)) kappa) w"
  have T: "tunnelingProbability energy barrierHeight w m = Inr (js_exp a)"
    using False by (simp add: tunnelingProbability_def Let_def a_def kappa_def s_def d_def)
  have d: "(\<exists>r. d = Fin r \<and> 0 < r) \<or> d = PInf"
    using False e v unfolding d_def
    by (cases energy; cases barrierHeight) (simp_all add: js_sub_def js_ge_def js_le_def)
  have m': "(\<exists>r. m = Fin r \<and> 0 < r) \<or> m = PInf" using m by (rule js_gt_zero_cases)
  have w': "(\<exists>r. w = Fin r \<and> 0 < r) \<or> w = PInf" using w by (rule js_gt_zero_cases)
  have s: "(\<exists>r. s = Fin r \<and> 0 < r) \<or> s = PInf"
    using d m' unfolding s_def
    by (auto simp: inf_of_sign_def not_less mult_nonneg_nonneg less_imp_le)
  have k: "(\<exists>r. kappa = Fin r \<and> 0 < r) \<or> kappa = PInf"
    using s hbar_pos unfolding kappa_def by auto
  have a: "(\<exists>r. a = Fin r \<and> r < 0) \<or> a = NInf"
    using k w' unfolding a_def by (auto simp: inf_of_sign_def mult_pos_pos)
  then show ?thesis
  proof
    assume "\<exists>r. a = Fin r \<and> r < 0"
    then obtain r where "a = Fin r" "r < 0" by blast
    then show ?thesis using T by simp
  next
    assume "a = NInf"
    then show ?thesis using T by simp
  qed
qed

lemma tunneling_half_mass:
  "tunnelingProbability (Fin 1) (Fin 2) (Fin 1) (Fin 0.5) = Inr (Fin (exp (- (2 / hbar))))"
  using hbar_pos by (simp add: tunnelingProbability_def Let_def)






section \<open>Lorentz factor\<close>

text \<open>
  Claim C4, as the code has it. At \<^verbatim>\<open>velocity = c\<close> the claim asks for a DomainError and no
  non-finite value; \<^verbatim>\<open>gamma\<close> returns Infinity.
\<close>

theorem gamma_light_speed_counterexample:
  "js_ge (js_abs (js_div (Fin 300000000) (default_arg None (Fin 300000000)))) (Fin 1)
   \<and> gamma (Fin 300000000) None = Inr PInf"
  by (simp add: gamma_def inf_of_sign_def)

text \<open>
  Claim C4, amended. For every velocity with \<^verbatim>\<open>|velocity / c| >= 1\<close>, \<^verbatim>\<open>gamma\<close> raises
  nothing and returns a non-finite value: Infinity when \<^verbatim>\<open>|velocity / c|\<close> is 1, NaN when
  it is larger.
\<close>

theorem gamma_non_finite:
  assumes "js_ge (js_abs (js_div v (default_arg c (Fin 300000000)))) (Fin 1)"
  shows "gamma v c =
    Inr (if js_abs (js_div v (default_arg c (Fin 300000000))) = Fin 1 then PInf else NaN)"
proof -
  define b where "b = js_div v (default_arg c (Fin 300000000))"
  have g: "gamma v c = Inr (js_div (Fin 1) (js_sqrt (js_sub (Fin 1) (js_mul b b))))"
    by (simp add: gamma_def b_def Let_def)
  have "js_ge (js_abs b) (Fin 1)" using assms by (simp add: b_def)
  then have "js_div (Fin 1) (js_sqrt (js_sub (Fin 1) (js_mul b b))) =
      (if js_abs b = Fin 1 then PInf else NaN)"
  proof (cases b)
    case (Fin r)
    assume "js_ge (js_abs b) (Fin 1)"
    then have r: "1 \<le> \<bar>r\<bar>" using Fin by simp
    show ?thesis
    proof (cases "\<bar>r\<bar> = 1")
      case True
      then have "r * r = 1" using abs_square_eq_1 [of r] by (simp add: power2_eq_square)
      then show ?thesis using Fin True by (simp add: inf_of_sign_def)
    next
      case False
      then have "\<not> \<bar>r\<bar> \<le> 1" using r by simp
      then have "1 < r * r" using abs_square_le_1 [of r] by (simp add: power2_eq_square)
      then show ?thesis using Fin False by simp
    qed
  qed (simp_all add: js_sub_def js_ge_def js_le_def)
  then show ?thesis using g by (simp add: b_def)
qed

theorem gamma_non_finite_witness:
  "js_ge (js_abs (js_div (Fin 600000000) (default_arg None (Fin 300000000)))) (Fin 1)
   \<and> gamma (Fin 600000000) None = Inr NaN"
  using gamma_non_finite [of "Fin 600000000" None] by simp

section \<open>Collision response\<close>

lemma vec3_sel [simp]:
  "xc (vec3 a b c) = a" "yc (vec3 a b c) = b" "zc (vec3 a b c) = Some c"
  by (simp_all add: vec3_def)

lemma valid_mass_num: "valid_mass m \<Longrightarrow> \<exists>r. num_or m (Fin 1) = Fin r \<and> 0 < r"
  by (cases m) (auto simp: valid_mass_def is_fin_def js_or_def js_gt_def split: jsnum.splits)

lemma is_fin_iff: "is_fin a = (\<exists>r. a = Fin r)"
  by (cases a) (simp_all add: is_fin_def)

lemma valid_restitution_num: "valid_restitution e \<Longrightarrow> is_fin (num_or e (Fin 0.8))"
  by (cases e)
     (auto simp: valid_restitution_def js_or_def js_ge_def js_le_def is_fin_def split: jsnum.splits)

lemma js_min_Fin [simp]: "js_min (Fin a) (Fin b) = Fin (min a b)"
  by (auto simp: js_min_def)

lemma js_max_Fin [simp]: "js_max (Fin a) (Fin b) = Fin (max a b)"
  by (auto simp: js_max_def)

lemma velAlongNormal_Fin:
  assumes "velAlongNormal v1 v2 n = Fin a"
  shows "\<exists>x1 y1 z1 x2 y2 z2 nx ny nz.
     xc v1 = Fin x1 \<and> yc v1 = Fin y1 \<and> num_or (zc v1) (Fin 0) = Fin z1 \<and>
     xc v2 = Fin x2 \<and> yc v2 = Fin y2 \<and> num_or (zc v2) (Fin 0) = Fin z2 \<and>
     xc n = Fin nx \<and> yc n = Fin ny \<and> num_prop (zc n) = Fin nz \<and>
     a = (x2 - x1) * nx + (y2 - y1) * ny + (z2 - z1) * nz"
proof -
  from assms obtain s c where 1: "js_add (js_mul (js_sub (xc v2) (xc v1)) (xc n))
        (js_mul (js_sub (yc v2) (yc v1)) (yc n)) = Fin s"
     and 2: "js_mul (js_sub (num_or (zc v2) (Fin 0)) (num_or (zc v1) (Fin 0))) (num_prop (zc n)) = Fin c"
     and 3: "a = s + c"
    unfolding velAlongNormal_def Let_def by (blast dest: js_add_eq_Fin)
  from 1 obtain p q where 4: "js_mul (js_sub (xc v2) (xc v1)) (xc n) = Fin p"
     and 5: "js_mul (js_sub (yc v2) (yc v1)) (yc n) = Fin q" and 6: "s = p + q"
    by (blast dest: js_add_eq_Fin)
  from 4 obtain rx nx where 7: "js_sub (xc v2) (xc v1) = Fin rx" "xc n = Fin nx" "p = rx * nx"
    by (blast dest: js_mul_eq_Fin)
  from 5 obtain ry ny where 8: "js_sub (yc v2) (yc v1) = Fin ry" "yc n = Fin ny" "q = ry * ny"
    by (blast dest: js_mul_eq_Fin)
  from 2 obtain rz nz where 9: "js_sub (num_or (zc v2) (Fin 0)) (num_or (zc v1) (Fin 0)) = Fin rz"
      "num_prop (zc n) = Fin nz" "c = rz * nz"
    by (blast dest: js_mul_eq_Fin)
  from 7(1) obtain x2 x1 where 10: "xc v2 = Fin x2" "xc v1 = Fin x1" "rx = x2 - x1"
    by (blast dest: js_sub_eq_Fin)
  from 8(1) obtain y2 y1 where 11: "yc v2 = Fin y2" "yc v1 = Fin y1" "ry = y2 - y1"
    by (blast dest: js_sub_eq_Fin)
  from 9(1) obtain z2 z1 where 12: "num_or (zc v2) (Fin 0) = Fin z2" "num_or (zc v1) (Fin 0) = Fin z1" "rz = z2 - z1"
    by (blast dest: js_sub_eq_Fin)
  show ?thesis using 3 6 7 8 9 10 11 12 by simp
qed

lemma resolve_zero_approach:
  assumes van: "velAlongNormal (obj_or (velocity obj1) zero_velocity)
                  (obj_or (velocity obj2) zero_velocity) (normal col) = Fin 0"
    and m: "valid_mass (mass obj1)" "valid_mass (mass obj2)"
    and e: "valid_restitution (restitution obj1)" "valid_restitution (restitution obj2)"
  shows "vec_num (velocity1 (resolveCollision obj1 obj2 col)) =
           vec_num (obj_or (velocity obj1) zero_velocity)
       \<and> vec_num (velocity2 (resolveCollision obj1 obj2 col)) =
           vec_num (obj_or (velocity obj2) zero_velocity)"
proof (cases "isColliding col")
  case False
  then show ?thesis by (simp add: resolveCollision_def zero_velocity_def)
next
  case True
  define v1 where "v1 = obj_or (velocity obj1) zero_velocity"
  define v2 where "v2 = obj_or (velocity obj2) zero_velocity"
  obtain m1 where m1: "num_or (mass obj1) (Fin 1) = Fin m1" "0 < m1"
    using m(1) by (blast dest: valid_mass_num)
  obtain m2 where m2: "num_or (mass obj2) (Fin 1) = Fin m2" "0 < m2"
    using m(2) by (blast dest: valid_mass_num)
  obtain e1 where e1: "num_or (restitution obj1) (Fin 0.8) = Fin e1"
    using e(1) valid_restitution_num is_fin_iff by blast
  obtain e2 where e2: "num_or (restitution obj2) (Fin 0.8) = Fin e2"
    using e(2) valid_restitution_num is_fin_iff by blast
  have van': "velAlongNormal v1 v2 (normal col) = Fin 0" using van by (simp add: v1_def v2_def)
  then obtain x1 y1 z1 x2 y2 z2 nx ny nz where f:
     "xc v1 = Fin x1" "yc v1 = Fin y1" "num_or (zc v1) (Fin 0) = Fin z1"
     "xc v2 = Fin x2" "yc v2 = Fin y2" "num_or (zc v2) (Fin 0) = Fin z2"
     "xc (normal col) = Fin nx" "yc (normal col) = Fin ny" "num_prop (zc (normal col)) = Fin nz"
    using velAlongNormal_Fin [of v1 v2 "normal col" 0] by blast
  have d: "1 / m1 + 1 / m2 \<noteq> 0" using m1(2) m2(2)
    by (metis add_pos_pos less_irrefl zero_less_divide_1_iff)
  have "m1 \<noteq> 0" "m2 \<noteq> 0" using m1 m2 by auto
  then show ?thesis
    using True van' m1 m2 e1 e2 f d
    by (simp add: resolveCollision_def Let_def vec_num_def vec3_def js_or_def
        flip: v1_def v2_def)
qed

lemma finite_vec_iff:
  "finite_vec v = (\<exists>a b c. xc v = Fin a \<and> yc v = Fin b \<and> num_or (zc v) (Fin 0) = Fin c)"
  by (simp add: finite_vec_def is_fin_iff)

lemma checkCollision_box:
  assumes "shape obj1 = Some ''box''" "shape obj2 = Some ''box''"
  shows "checkCollision obj1 obj2 =
     \<lparr>isColliding = checkBoxCollision obj1 obj2, distance = Fin 0, minDistance = None,
      normal = vec3 (Fin 0) (Fin 0) (Fin 0), overlap = Fin 0\<rparr>"
  using assms by (simp add: checkCollision_def)

lemma ball_fields [simp]:
  "position (ball p u) = vec3 (Fin p) (Fin 0) (Fin 0)"
  "velocity (ball p u) = Some (vec3 (Fin u) (Fin 0) (Fin 0))"
  "mass (ball p u) = None" "radius (ball p u) = Some (Fin 1)"
  "restitution (ball p u) = Some (Fin 1)" "shape (ball p u) = None" "bsize (ball p u) = None"
  by (simp_all add: ball_def)

lemma crate_fields [simp]:
  "position (crate p u) = vec3 (Fin p) (Fin 0) (Fin 0)"
  "velocity (crate p u) = Some (vec3 (Fin u) (Fin 0) (Fin 0))"
  "mass (crate p u) = None" "radius (crate p u) = None"
  "restitution (crate p u) = None" "shape (crate p u) = Some ''box''" "bsize (crate p u) = None"
  by (simp_all add: crate_def)

lemma ball_collision:
  "checkCircleCollision (ball 0 u) (ball 1 w) =
     \<lparr>isColliding = True, distance = Fin 1, minDistance = Some (Fin 2),
      normal = vec3 (Fin 1) (Fin 0) (Fin 0), overlap = Fin 1\<rparr>"
  by (simp add: checkCircleCollision_def Let_def js_or_def)

lemma crate_collision:
  "checkCollision (crate 0 u) (crate (1 / 2) w) =
     \<lparr>isColliding = True, distance = Fin 0, minDistance = None,
      normal = vec3 (Fin 0) (Fin 0) (Fin 0), overlap = Fin 0\<rparr>"
  by (simp add: checkCollision_box checkBoxCollision_def Let_def js_or_def)

lemma finite_vec3 [simp]: "finite_vec (vec3 (Fin a) (Fin b) (Fin c))"
  by (simp add: finite_vec_def is_fin_def)



lemma velAlongNormal_zero_normal:
  assumes "finite_vec v1" "finite_vec v2"
  shows "velAlongNormal v1 v2 (vec3 (Fin 0) (Fin 0) (Fin 0)) = Fin 0"
  using assms by (auto simp: finite_vec_iff velAlongNormal_def vec3_def)



lemma unit_direction:
  fixes dx dy dz :: real
  assumes "0 < sqrt (dx * dx + dy * dy + dz * dz)"
  shows "(dx / sqrt (dx * dx + dy * dy + dz * dz)) * (dx / sqrt (dx * dx + dy * dy + dz * dz))
       + (dy / sqrt (dx * dx + dy * dy + dz * dz)) * (dy / sqrt (dx * dx + dy * dy + dz * dz))
       + (dz / sqrt (dx * dx + dy * dy + dz * dz)) * (dz / sqrt (dx * dx + dy * dy + dz * dz)) = 1"
proof -
  define s where "s = dx * dx + dy * dy + dz * dz"
  have s0: "0 \<le> s" by (simp add: s_def)
  have pos: "0 < sqrt s" using assms by (simp add: s_def)
  have sq: "sqrt s * sqrt s = s" using s0 by simp
  have "(dx / sqrt s) * (dx / sqrt s) + (dy / sqrt s) * (dy / sqrt s) + (dz / sqrt s) * (dz / sqrt s)
      = (dx * dx + dy * dy + dz * dz) / (sqrt s * sqrt s)"
    by (simp add: add_divide_distrib)
  also have "\<dots> = s / s" by (simp add: sq s_def)
  also have "\<dots> = 1" using pos sq by auto
  finally show ?thesis by (simp add: s_def)
qed

lemma circle_normal_unit:
  assumes "finite_vec (position obj1)" "finite_vec (position obj2)"
  shows "\<exists>nx ny nz. normal (checkCircleCollision obj1 obj2) = vec3 (Fin nx) (Fin ny) (Fin nz)
           \<and> nx * nx + ny * ny + nz * nz = 1"
proof -
  obtain a1 b1 c1 where p1: "xc (position obj1) = Fin a1" "yc (position obj1) = Fin b1"
      "num_or (zc (position obj1)) (Fin 0) = Fin c1"
    using assms(1) by (auto simp: finite_vec_iff)
  obtain a2 b2 c2 where p2: "xc (position obj2) = Fin a2" "yc (position obj2) = Fin b2"
      "num_or (zc (position obj2)) (Fin 0) = Fin c2"
    using assms(2) by (auto simp: finite_vec_iff)
  define dx where "dx = a2 - a1"
  define dy where "dy = b2 - b1"
  define dz where "dz = c2 - c1"
  define d where "d = sqrt (dx * dx + dy * dy + dz * dz)"
  have nn: "\<not> dx * dx + dy * dy + dz * dz < 0" by (simp add: not_less)
  have n: "normal (checkCircleCollision obj1 obj2) =
      (if 0 < d then vec3 (Fin (dx / d)) (Fin (dy / d)) (Fin (dz / d)) else vec3 (Fin 1) (Fin 0) (Fin 0))"
    using p1 p2 nn
    by (simp add: checkCircleCollision_def Let_def flip: dx_def dy_def dz_def d_def)
  show ?thesis
  proof (cases "0 < d")
    case True
    then have u: "(dx / d) * (dx / d) + (dy / d) * (dy / d) + (dz / d) * (dz / d) = 1"
      unfolding d_def by (rule unit_direction)
    have "normal (checkCircleCollision obj1 obj2) = vec3 (Fin (dx / d)) (Fin (dy / d)) (Fin (dz / d))"
      using n True by simp
    with u show ?thesis by blast
  next
    case False
    have u: "(1::real) * 1 + 0 * 0 + 0 * 0 = 1" by simp
    have "normal (checkCircleCollision obj1 obj2) = vec3 (Fin 1) (Fin 0) (Fin 0)"
      using n False by simp
    with u show ?thesis by blast
  qed
qed

lemma kineticEnergy_Fin:
  assumes "xc v = Fin a" "yc v = Fin b" "num_or (zc v) (Fin 0) = Fin c"
  shows "kineticEnergy (Fin m) (Velocity v) = Fin (0.5 * m * (a * a + b * b + c * c))"
proof -
  have nn: "\<not> a * a + b * b + c * c < 0" by (simp add: not_less)
  have "0.5 * m * sqrt (a * a + b * b + c * c) * sqrt (a * a + b * b + c * c)
      = 0.5 * m * (sqrt (a * a + b * b + c * c) * sqrt (a * a + b * b + c * c))"
    by simp
  also have "\<dots> = 0.5 * m * (a * a + b * b + c * c)" by simp
  finally show ?thesis using assms nn
    by (simp add: kineticEnergy_def js_square_def Let_def)
qed

lemma elastic_equal_mass_velocities:
  assumes col: "isColliding col"
    and n: "normal col = vec3 (Fin nx) (Fin ny) (Fin nz)"
    and v1: "obj_or (velocity obj1) zero_velocity = v1" "xc v1 = Fin x1" "yc v1 = Fin y1"
            "num_or (zc v1) (Fin 0) = Fin z1"
    and v2: "obj_or (velocity obj2) zero_velocity = v2" "xc v2 = Fin x2" "yc v2 = Fin y2"
            "num_or (zc v2) (Fin 0) = Fin z2"
    and m: "num_or (mass obj1) (Fin 1) = Fin m" "num_or (mass obj2) (Fin 1) = Fin m" "0 < m"
    and e: "restitution obj1 = Some (Fin 1)" "restitution obj2 = Some (Fin 1)"
    and a: "a = (x2 - x1) * nx + (y2 - y1) * ny + (z2 - z1) * nz" "a \<le> 0"
  shows "resolveCollision obj1 obj2 col =
     \<lparr>velocity1 = vec3 (Fin (x1 + a * nx)) (Fin (y1 + a * ny)) (Fin (z1 + a * nz)),
      velocity2 = vec3 (Fin (x2 - a * nx)) (Fin (y2 - a * ny)) (Fin (z2 - a * nz))\<rparr>"
proof -
  have van: "velAlongNormal v1 v2 (normal col) = Fin a"
    using n v1 v2 a by (simp add: velAlongNormal_def vec3_def)
  have d: "1 / m + 1 / m \<noteq> 0" "m \<noteq> 0" using m(3) by auto
  have j: "- 2 * a / (1 / m + 1 / m) = - a * m" using m(3) by (simp add: field_simps)
  have k: "\<And>t. - a * m * t / m = - a * t" using m(3) by simp
  have "js_div (js_mul (js_neg (js_add (Fin 1) (js_min (js_or (Fin 1) (Fin 0.8)) (js_or (Fin 1) (Fin 0.8)))))
           (Fin a)) (js_add (js_div (Fin 1) (Fin m)) (js_div (Fin 1) (Fin m))) = Fin (- a * m)"
    using d j by (simp add: js_or_def)
  then show ?thesis
    using col van n v1 v2 m e a(2) d k
    by (simp add: resolveCollision_def Let_def vec3_def)
qed

lemma momentum_Fin:
  assumes "xc v = Fin a" "yc v = Fin b" "num_or (zc v) (Fin 0) = Fin c"
  shows "momentum (Fin m) v = vec3 (Fin (m * a)) (Fin (m * b)) (Fin (m * c))"
  using assms by (simp add: momentum_def)

lemma square_shift:
  fixes p a u :: real
  shows "(x + a * nx) * (x + a * nx) + (y + a * ny) * (y + a * ny) + (z + a * nz) * (z + a * nz)
     = (x * x + y * y + z * z) + 2 * a * (x * nx + y * ny + z * nz)
       + a * a * (nx * nx + ny * ny + nz * nz)"
  by (simp add: algebra_simps)



section \<open>Wave interference\<close>

lemma unit_source_fields [simp]:
  "source_position (unit_source a b) = \<lparr>xc = Fin a, yc = Fin b, zc = None\<rparr>"
  "amplitude (unit_source a b) = Fin 1" "wavelength (unit_source a b) = Fin 1"
  "frequency (unit_source a b) = Fin 1" "phase (unit_source a b) = Some (Fin 0)"
  by (simp_all add: unit_source_def)

lemma sum_squares_nonneg [simp]: "\<not> (a::real) * a + b * b < 0"
  by (simp add: not_less)

lemma unit_source_distance:
  "source_distance (Fin 0) (Fin 0) (unit_source a b) = Fin (sqrt (a * a + b * b))"
  by (simp add: source_distance_def Let_def)

lemma unit_source_amplitude:
  "amplitudeAtPoint (Fin 0) (Fin 0) (unit_source a b) = Fin (1 / (1 + sqrt (a * a + b * b) * 0.1))"
proof -
  have "0 \<le> sqrt (a * a + b * b)" by simp
  then have "1 + sqrt (a * a + b * b) * 0.1 \<noteq> 0" by linarith
  then show ?thesis by (simp add: amplitudeAtPoint_def unit_source_distance)
qed

lemma unit_source_phase:
  "source_phase (Fin 0) (Fin 0) (unit_source a b) (Fin 0) = Fin (2 * pi * sqrt (a * a + b * b))"
  by (simp add: source_phase_def unit_source_distance)

lemma phasor_square:
  fixes c :: real
  shows "(c * cos p + c * cos p) * (c * cos p + c * cos p)
       + (c * sin p + c * sin p) * (c * sin p + c * sin p) = (2 * c)\<^sup>2"
proof -
  define u where "u = cos p"
  define v where "v = sin p"
  have uv: "u * u + v * v = 1" unfolding u_def v_def by (rule sin_cos_squared_add3)
  have "(c * u + c * u) * (c * u + c * u) + (c * v + c * v) * (c * v + c * v)
      = 4 * c * c * (u * u + v * v)"
    by (simp add: algebra_simps)
  also have "\<dots> = (2 * c)\<^sup>2" unfolding uv by (simp add: power2_eq_square)
  finally show ?thesis unfolding u_def v_def .
qed



lemma square_nonneg_or_NaN: "js_mul a a = NaN \<or> js_ge (js_mul a a) (Fin 0)"
  by (cases a) (simp_all add: js_ge_def js_le_def)

lemma add_nonneg_or_NaN:
  assumes "a = NaN \<or> js_ge a (Fin 0)" "b = NaN \<or> js_ge b (Fin 0)"
  shows "js_add a b = NaN \<or> js_ge (js_add a b) (Fin 0)"
  using assms by (cases a; cases b) (simp_all add: js_ge_def js_le_def)

lemma intensity_nonneg_or_NaN:
  "totalIntensity (calculateInterference x y sources t) = NaN
   \<or> js_ge (totalIntensity (calculateInterference x y sources t)) (Fin 0)"
  by (simp add: calculateInterference_def Let_def square_nonneg_or_NaN add_nonneg_or_NaN
      split: prod.splits)

lemma fold_first_loop:
  "fold (\<lambda>source (acc, phs).
           (js_add acc (js_mul (amplitudeAtPoint x y source) (js_sin (source_phase x y source t))),
            phs @ [source_phase x y source t])) sources (acc0, phs0)
   = (fold (\<lambda>source acc. js_add acc (js_mul (amplitudeAtPoint x y source)
                                          (js_sin (source_phase x y source t)))) sources acc0,
      phs0 @ map (\<lambda>source. source_phase x y source t) sources)"
  by (induction sources arbitrary: acc0 phs0) simp_all

lemma fold_second_loop:
  "fold (\<lambda>(source, ph) (re, im).
           (js_add re (js_mul (amplitudeAtPoint x y source) (js_cos ph)),
            js_add im (js_mul (amplitudeAtPoint x y source) (js_sin ph))))
        (zip sources (map ph_of sources)) (re0, im0)
   = (fold (\<lambda>source re. js_add re (js_mul (amplitudeAtPoint x y source) (js_cos (ph_of source))))
        sources re0,
      fold (\<lambda>source im. js_add im (js_mul (amplitudeAtPoint x y source) (js_sin (ph_of source))))
        sources im0)"
  by (induction sources arbitrary: re0 im0) simp_all

lemma fold_add_fin:
  assumes "is_fin acc" "\<forall>s \<in> set xs. is_fin (g s)"
  shows "is_fin (fold (\<lambda>s a. js_add a (g s)) xs acc)"
  using assms by (induction xs arbitrary: acc) (auto simp: is_fin_iff)

lemma finite_source_distance:
  assumes "is_fin x" "is_fin y" "finite_source s"
  shows "\<exists>d. source_distance x y s = Fin d \<and> 0 \<le> d"
  using assms
  by (auto simp: is_fin_iff finite_source_def source_distance_def Let_def not_less)

lemma finite_source_amplitude:
  assumes "is_fin x" "is_fin y" "finite_source s"
  shows "is_fin (amplitudeAtPoint x y s)"
proof -
  obtain d where d: "source_distance x y s = Fin d" "0 \<le> d"
    using finite_source_distance [OF assms] by blast
  then have "1 + d * 0.1 \<noteq> 0" by linarith
  moreover obtain a where "amplitude s = Fin a"
    using assms(3) by (auto simp: finite_source_def is_fin_iff)
  ultimately show ?thesis using d by (simp add: amplitudeAtPoint_def is_fin_def)
qed

lemma finite_source_phase:
  assumes "is_fin x" "is_fin y" "is_fin t" "finite_source s"
  shows "is_fin (source_phase x y s t)"
proof -
  obtain d where d: "source_distance x y s = Fin d"
    using finite_source_distance [OF assms(1,2,4)] by blast
  obtain w f p tt where "wavelength s = Fin w" "w \<noteq> 0" "frequency s = Fin f"
      "num_or (phase s) (Fin 0) = Fin p" "t = Fin tt"
    using assms(3,4) by (auto simp: finite_source_def is_fin_iff)
  then show ?thesis using d by (simp add: source_phase_def is_fin_def)
qed

lemma is_fin_mul: "is_fin a \<Longrightarrow> is_fin b \<Longrightarrow> is_fin (js_mul a b)"
  by (auto simp: is_fin_iff)

lemma is_fin_sin: "is_fin a \<Longrightarrow> is_fin (js_sin a)"
  by (auto simp: is_fin_iff)

lemma is_fin_cos: "is_fin a \<Longrightarrow> is_fin (js_cos a)"
  by (auto simp: is_fin_iff)

lemma is_fin_square_nonneg: "is_fin a \<Longrightarrow> \<exists>r. js_mul a a = Fin r \<and> 0 \<le> r"
  by (auto simp: is_fin_iff)

lemma intensity_finite:
  assumes x: "is_fin x" and y: "is_fin y" and t: "is_fin t"
    and s: "\<forall>s \<in> set sources. finite_source s"
  shows "\<exists>i. totalIntensity (calculateInterference x y sources t) = Fin i \<and> 0 \<le> i"
proof -
  have zero: "is_fin (Fin 0)" by (simp add: is_fin_def)
  have ts: "\<forall>s \<in> set sources. is_fin (js_mul (amplitudeAtPoint x y s) (js_sin (source_phase x y s t)))"
    using x y t s by (simp add: is_fin_mul is_fin_sin finite_source_amplitude finite_source_phase)
  have tc: "\<forall>s \<in> set sources. is_fin (js_mul (amplitudeAtPoint x y s) (js_cos (source_phase x y s t)))"
    using x y t s by (simp add: is_fin_mul is_fin_cos finite_source_amplitude finite_source_phase)
  define amp where "amp = fold (\<lambda>source acc. js_add acc (js_mul (amplitudeAtPoint x y source)
                                          (js_sin (source_phase x y source t)))) sources (Fin 0)"
  define re where "re = fold (\<lambda>source acc. js_add acc (js_mul (amplitudeAtPoint x y source)
                                          (js_cos (source_phase x y source t)))) sources (Fin 0)"
  have amp: "is_fin amp" unfolding amp_def using zero ts by (rule fold_add_fin)
  have re: "is_fin re" unfolding re_def using zero tc by (rule fold_add_fin)
  have i: "totalIntensity (calculateInterference x y sources t) =
      (if 1 < length sources then js_add (js_mul re re) (js_mul amp amp) else js_mul amp amp)"
    by (simp add: calculateInterference_def fold_first_loop fold_second_loop amp_def re_def)
  obtain a where a: "js_mul amp amp = Fin a" "0 \<le> a"
    using is_fin_square_nonneg [OF amp] by blast
  obtain r where r: "js_mul re re = Fin r" "0 \<le> r"
    using is_fin_square_nonneg [OF re] by blast
  show ?thesis using i a r by simp
qed



section \<open>Field lines\<close>

lemma point_charge_fields [simp]:
  "charge_position (point_charge qv) = vec3 (Fin 0) (Fin 0) (Fin 0)"
  "charge_q (point_charge qv) = Fin qv"
  by (simp_all add: point_charge_def)

lemma seed_point_vector [simp]: "new_Vector3 (seed_point a b) = Vector3 (Fin a) (Fin b) (Fin 0)"
  by (simp add: seed_point_def new_Vector3_def)

lemma origin_vector [simp]: "new_Vector3 (vec3 (Fin 0) (Fin 0) (Fin 0)) = Vector3 (Fin 0) (Fin 0) (Fin 0)"
  by (simp add: new_Vector3_def)

lemma skip_close_charge:
  "js_lt (field_distance p c) (Fin 0.3) \<Longrightarrow> add_charge_field p c f = f"
  by (cases f) (simp add: add_charge_field_def field_distance_def Let_def)

lemma total_field_all_close:
  assumes "\<forall>c \<in> set charges. js_lt (field_distance p c) (Fin 0.3)"
  shows "fold (add_charge_field p) charges f = f"
  using assms by (induction charges arbitrary: f) (simp_all add: skip_close_charge)

text \<open>
  Claim C9. If every charge is within 0.3 of the start point, \<^verbatim>\<open>calculateFieldLine\<close>
  stops in its first iteration (the field is zero, below 0.01) and returns the start point
  alone.
\<close>

theorem coincident_charges_single_point:
  assumes "\<forall>c \<in> set charges. js_lt (field_distance (new_Vector3 startPoint) c) (Fin 0.3)"
  shows "calculateFieldLine startPoint charges maxSteps stepSize = [new_Vector3 startPoint]
       \<and> trace_field_line startPoint charges maxSteps stepSize =
           ([new_Vector3 startPoint],
            if default_arg maxSteps 200 = 0 then MaxSteps else FieldTooWeak)"
proof -
  have f: "total_field (new_Vector3 startPoint) charges = (Fin 0, Fin 0, Fin 0)"
    unfolding total_field_def using assms by (rule total_field_all_close)
  have "field_line_loop charges s n [new_Vector3 startPoint] =
      ([new_Vector3 startPoint], if n = 0 then MaxSteps else FieldTooWeak)" for s n
    using f by (cases n) simp_all
  then show ?thesis by (simp add: calculateFieldLine_def trace_field_line_def)
qed

theorem coincident_charges_single_point_witness:
  "js_lt (field_distance (new_Vector3 (seed_point 0 0)) (point_charge 1)) (Fin 0.3)
   \<and> calculateFieldLine (seed_point 0 0) [point_charge 1] None None = [Vector3 (Fin 0) (Fin 0) (Fin 0)]"
  using coincident_charges_single_point [of "[point_charge 1]" "seed_point 0 0" None None]
  by (simp add: field_distance_def)

lemma sum3_squares_nonneg [simp]: "\<not> (a::real) * a + b * b + c * c < 0"
  by (simp add: not_less)

lemma finite_place_coords:
  assumes "finite_place p"
  obtains a b c where "xc p = Fin a" "yc p = Fin b" "default_arg (zc p) (Fin 0) = Fin c"
    "num_or (zc p) (Fin 0) = Fin c" "new_Vector3 p = Vector3 (Fin a) (Fin b) (Fin c)"
proof -
  obtain a b c where 1: "xc p = Fin a" "yc p = Fin b" "default_arg (zc p) (Fin 0) = Fin c"
    using assms by (auto simp: finite_place_def is_fin_iff)
  have "num_or (zc p) (Fin 0) = Fin c" using 1(3) by (cases "zc p") auto
  moreover have "new_Vector3 p = Vector3 (Fin a) (Fin b) (Fin c)" using 1 by (simp add: new_Vector3_def)
  ultimately show ?thesis using 1 that by blast
qed

text \<open>The field of one charge at a point that is not within 0.3 of it.\<close>

lemma scaled_unit_norm:
  fixes dx dy dz a :: real
  defines "d \<equiv> sqrt (dx * dx + dy * dy + dz * dz)"
  assumes "0 < d"
  shows "sqrt ((a * (dx / d)) * (a * (dx / d)) + (a * (dy / d)) * (a * (dy / d))
             + (a * (dz / d)) * (a * (dz / d))) = \<bar>a\<bar>"
proof -
  have u: "(dx / d) * (dx / d) + (dy / d) * (dy / d) + (dz / d) * (dz / d) = 1"
    using assms(2) unfolding d_def by (rule unit_direction)
  have "(a * (dx / d)) * (a * (dx / d)) + (a * (dy / d)) * (a * (dy / d))
             + (a * (dz / d)) * (a * (dz / d))
      = a * a * ((dx / d) * (dx / d) + (dy / d) * (dy / d) + (dz / d) * (dz / d))"
    by (simp only: algebra_simps)
  also have "\<dots> = a * a" unfolding u by simp
  finally show ?thesis by simp
qed

lemma radial_step_norm:
  fixes dx dy dz h :: real
  defines "d \<equiv> sqrt (dx * dx + dy * dy + dz * dz)"
  assumes "0 < d" "0 \<le> d + h"
  shows "sqrt ((dx + dx / d * h) * (dx + dx / d * h) + (dy + dy / d * h) * (dy + dy / d * h)
             + (dz + dz / d * h) * (dz + dz / d * h)) = d + h"
proof -
  have u: "(dx / d) * (dx / d) + (dy / d) * (dy / d) + (dz / d) * (dz / d) = 1"
    using assms(2) unfolding d_def by (rule unit_direction)
  have e: "t + t / d * h = (t / d) * (d + h)" for t
    using assms(2) by (simp add: field_simps)
  have "(dx + dx / d * h) * (dx + dx / d * h) + (dy + dy / d * h) * (dy + dy / d * h)
             + (dz + dz / d * h) * (dz + dz / d * h)
      = (d + h) * (d + h) * ((dx / d) * (dx / d) + (dy / d) * (dy / d) + (dz / d) * (dz / d))"
    unfolding e by (simp only: algebra_simps)
  also have "\<dots> = (d + h) * (d + h)" unfolding u by simp
  finally show ?thesis using assms(3) by simp
qed

lemma single_charge_field:
  fixes x y z cx cy cz qv :: real
  defines "dx \<equiv> x - cx" and "dy \<equiv> y - cy" and "dz \<equiv> z - cz"
  defines "s \<equiv> dx * dx + dy * dy + dz * dz"
  defines "d \<equiv> sqrt s"
  assumes c: "xc (charge_position c) = Fin cx" "yc (charge_position c) = Fin cy"
      "num_or (zc (charge_position c)) (Fin 0) = Fin cz" "charge_q c = Fin qv"
  shows "total_field (Vector3 (Fin x) (Fin y) (Fin z)) [c] =
     (if d < 0.3 then (Fin 0, Fin 0, Fin 0)
      else (Fin (coulomb_k * qv / s * (dx / d)), Fin (coulomb_k * qv / s * (dy / d)),
            Fin (coulomb_k * qv / s * (dz / d))))"
proof (cases "d < 0.3")
  case True
  have s0: "\<not> s < 0" by (simp add: s_def)
  from True show ?thesis using c s0
    by (simp add: total_field_def add_charge_field_def Let_def
        flip: dx_def dy_def dz_def s_def d_def)
next
  case False
  then have d: "0 < d" by simp
  then have s: "s \<noteq> 0" unfolding d_def by auto
  have d0: "d \<noteq> 0" using d by simp
  have s0: "\<not> s < 0" by (simp add: s_def)
  show ?thesis using False c s d0 s0
    by (simp add: total_field_def add_charge_field_def Let_def
        flip: dx_def dy_def dz_def s_def d_def)
qed

lemma coulomb_k_pos: "0 < coulomb_k"
  by (simp add: coulomb_k_def)

lemma too_close_single:
  "too_close p [c] = js_lt (distanceTo p (new_Vector3 (charge_position c))) (Fin 0.3)"
  by (simp add: too_close_def)

lemma single_charge_loop_step:
  fixes x y z cx cy cz qv h :: real
  defines "dx \<equiv> x - cx" and "dy \<equiv> y - cy" and "dz \<equiv> z - cz"
  defines "s \<equiv> dx * dx + dy * dy + dz * dz"
  defines "d \<equiv> sqrt s"
  defines "a \<equiv> coulomb_k * qv / s"
  assumes c: "xc (charge_position c) = Fin cx" "yc (charge_position c) = Fin cy"
      "num_or (zc (charge_position c)) (Fin 0) = Fin cz" "charge_q c = Fin qv"
    and cv: "new_Vector3 (charge_position c) = Vector3 (Fin cx) (Fin cy) (Fin cz)"
    and q: "0 < qv" and h: "0 < h"
    and l: "last points = Vector3 (Fin x) (Fin y) (Fin z)"
  shows "field_line_loop [c] (Fin h) (Suc n) points =
    (if d < 0.3 \<or> a < 0.01 then (points, FieldTooWeak)
     else if 15 < \<bar>x + dx / d * h\<bar> \<or> 15 < \<bar>y + dy / d * h\<bar> then (points, OutOfBox)
     else field_line_loop [c] (Fin h) n
            (points @ [Vector3 (Fin (x + dx / d * h)) (Fin (y + dy / d * h)) (Fin (z + dz / d * h))]))"
proof (cases "d < 0.3")
  case True
  have "total_field (Vector3 (Fin x) (Fin y) (Fin z)) [c] = (Fin 0, Fin 0, Fin 0)"
    using single_charge_field [OF c, of x y z] True
    by (simp flip: dx_def dy_def dz_def s_def d_def)
  then show ?thesis using True l by simp
next
  case False
  then have dpos: "0 < d" by simp
  then have spos: "0 < s" unfolding d_def by simp
  have apos: "0 < a" unfolding a_def using coulomb_k_pos q spos by simp
  define ux where "ux = dx / d"
  define uy where "uy = dy / d"
  define uz where "uz = dz / d"
  have F: "total_field (Vector3 (Fin x) (Fin y) (Fin z)) [c] = (Fin (a * ux), Fin (a * uy), Fin (a * uz))"
    using single_charge_field [OF c, of x y z] False
    by (simp add: ux_def uy_def uz_def a_def flip: dx_def dy_def dz_def s_def d_def)
  have M: "sqrt (a * ux * (a * ux) + a * uy * (a * uy) + a * uz * (a * uz)) = a"
    using scaled_unit_norm [of dx dy dz a] dpos apos
    by (simp add: ux_def uy_def uz_def flip: s_def d_def)
  have D: "a * t / a = t" for t using apos by simp
  have R: "sqrt ((x + ux * h - cx) * (x + ux * h - cx) + (y + uy * h - cy) * (y + uy * h - cy)
      + (z + uz * h - cz) * (z + uz * h - cz)) = d + h"
  proof -
    have e: "x + ux * h - cx = dx + dx / d * h" "y + uy * h - cy = dy + dy / d * h"
        "z + uz * h - cz = dz + dz / d * h"
      by (simp_all add: ux_def uy_def uz_def dx_def dy_def dz_def)
    show ?thesis unfolding e using radial_step_norm [of dx dy dz h] dpos h
      by (simp flip: s_def d_def)
  qed
  have nn: "\<not> (x + ux * h - cx) * (x + ux * h - cx) + (y + uy * h - cy) * (y + uy * h - cy)
      + (z + uz * h - cz) * (z + uz * h - cz) < 0"
    by simp
  have T: "\<not> too_close (Vector3 (Fin (x + ux * h)) (Fin (y + uy * h)) (Fin (z + uz * h))) [c]"
    using False h nn R by (simp add: too_close_single cv distanceTo_def Let_def del: sum3_squares_nonneg)
  have nm: "\<not> a * ux * (a * ux) + a * uy * (a * uy) + a * uz * (a * uz) < 0"
    by simp
  have a0: "a \<noteq> 0" using apos by simp
  show ?thesis
    using False l F M D T nm a0
    by (simp add: Let_def v3_add_def multiplyScalar_def del: sum3_squares_nonneg
        flip: ux_def uy_def uz_def)
qed

lemma distanceTo_Fin:
  "distanceTo (Vector3 (Fin x) (Fin y) (Fin z)) (Vector3 (Fin cx) (Fin cy) (Fin cz)) =
     Fin (sqrt ((x - cx) * (x - cx) + (y - cy) * (y - cy) + (z - cz) * (z - cz)))"
  by (simp add: distanceTo_def Let_def)

lemma single_charge_trace:
  fixes cx cy cz qv h :: real
  assumes c: "xc (charge_position c) = Fin cx" "yc (charge_position c) = Fin cy"
      "num_or (zc (charge_position c)) (Fin 0) = Fin cz" "charge_q c = Fin qv"
    and cv: "new_Vector3 (charge_position c) = Vector3 (Fin cx) (Fin cy) (Fin cz)"
    and q: "0 < qv" and h: "0 < h"
    and l: "last points = Vector3 (Fin x) (Fin y) (Fin z)"
    and ne: "points \<noteq> []"
    and inc: "successively js_lt (map (\<lambda>p. distanceTo p (new_Vector3 (charge_position c))) points)"
  shows "snd (field_line_loop [c] (Fin h) n points) \<noteq> Absorbed
       \<and> successively js_lt (map (\<lambda>p. distanceTo p (new_Vector3 (charge_position c)))
            (fst (field_line_loop [c] (Fin h) n points)))"
  using l ne inc
proof (induction n arbitrary: points x y z)
  case 0
  then show ?case by simp
next
  case (Suc n)
  define dx where "dx = x - cx"
  define dy where "dy = y - cy"
  define dz where "dz = z - cz"
  define d where "d = sqrt (dx * dx + dy * dy + dz * dz)"
  define a where "a = coulomb_k * qv / (dx * dx + dy * dy + dz * dz)"
  define nxt where "nxt = Vector3 (Fin (x + dx / d * h)) (Fin (y + dy / d * h)) (Fin (z + dz / d * h))"
  have step: "field_line_loop [c] (Fin h) (Suc n) points =
    (if d < 0.3 \<or> a < 0.01 then (points, FieldTooWeak)
     else if 15 < \<bar>x + dx / d * h\<bar> \<or> 15 < \<bar>y + dy / d * h\<bar> then (points, OutOfBox)
     else field_line_loop [c] (Fin h) n (points @ [nxt]))"
    unfolding d_def a_def dx_def dy_def dz_def nxt_def
    using c cv q h Suc.prems(1) by (rule single_charge_loop_step)
  show ?case
  proof (cases "d < 0.3 \<or> a < 0.01 \<or> 15 < \<bar>x + dx / d * h\<bar> \<or> 15 < \<bar>y + dy / d * h\<bar>")
    case True
    then show ?thesis using step Suc.prems(3) by auto
  next
    case False
    then have st: "field_line_loop [c] (Fin h) (Suc n) points =
        field_line_loop [c] (Fin h) n (points @ [nxt])"
      using step by simp
    have dpos: "0 < d" using False by simp
    have dl: "distanceTo (last points) (new_Vector3 (charge_position c)) = Fin d"
      unfolding Suc.prems(1) cv distanceTo_Fin by (simp add: d_def dx_def dy_def dz_def)
    have e: "x + dx / d * h - cx = dx + dx / d * h" "y + dy / d * h - cy = dy + dy / d * h"
        "z + dz / d * h - cz = dz + dz / d * h"
      by (simp_all add: dx_def dy_def dz_def)
    have dn: "distanceTo nxt (new_Vector3 (charge_position c)) = Fin (d + h)"
      unfolding nxt_def cv distanceTo_Fin e
      using radial_step_norm [of dx dy dz h] dpos h by (simp add: d_def)
    have lm: "last (map (\<lambda>p. distanceTo p (new_Vector3 (charge_position c))) points) = Fin d"
      using Suc.prems(2) dl by (simp add: last_map)
    have inc': "successively js_lt
        (map (\<lambda>p. distanceTo p (new_Vector3 (charge_position c))) (points @ [nxt]))"
      using Suc.prems(2,3) lm dn h by (simp add: successively_append_iff)
    have "snd (field_line_loop [c] (Fin h) n (points @ [nxt])) \<noteq> Absorbed
       \<and> successively js_lt (map (\<lambda>p. distanceTo p (new_Vector3 (charge_position c)))
            (fst (field_line_loop [c] (Fin h) n (points @ [nxt]))))"
    proof (rule Suc.IH)
      show "last (points @ [nxt]) = Vector3 (Fin (x + dx / d * h)) (Fin (y + dy / d * h)) (Fin (z + dz / d * h))"
        by (simp add: nxt_def)
      show "points @ [nxt] \<noteq> []" by simp
      show "successively js_lt (map (\<lambda>p. distanceTo p (new_Vector3 (charge_position c))) (points @ [nxt]))"
        by (rule inc')
    qed
    then show ?thesis unfolding st .
  qed
qed

lemma point_charge_first_step:
  assumes "0 < qv"
  shows "field_line_loop [point_charge qv] (Fin 0.1) (Suc n) [Vector3 (Fin 1) (Fin 0) (Fin 0)] =
     (if coulomb_k * qv < 0.01 then ([Vector3 (Fin 1) (Fin 0) (Fin 0)], FieldTooWeak)
      else field_line_loop [point_charge qv] (Fin 0.1) n
             [Vector3 (Fin 1) (Fin 0) (Fin 0), Vector3 (Fin 1.1) (Fin 0) (Fin 0)])"
  using single_charge_loop_step [where c = "point_charge qv" and cx = 0 and cy = 0 and cz = 0
      and qv = qv and h = "0.1" and points = "[Vector3 (Fin 1) (Fin 0) (Fin 0)]"
      and x = 1 and y = 0 and z = 0 and n = n] assms
  by simp

lemma diagonal_bound:
  assumes "k \<le> 200"
  shows "1 / 2 + real k / (10 * sqrt 2) \<le> 15" "0 < 1 / 2 + real k / (10 * sqrt 2)"
proof -
  have s: "sqrt 2 * sqrt 2 = 2" by simp
  have "(20 / 14.5) \<le> sqrt 2"
  proof (rule real_le_rsqrt)
    show "(20 / 14.5)\<^sup>2 \<le> (2::real)" by (simp add: power2_eq_square)
  qed
  then have "20 \<le> 14.5 * sqrt 2" by (simp add: field_simps)
  moreover have "real k \<le> 200" using assms by simp
  ultimately have "real k \<le> 145 * sqrt 2" by linarith
  then have "real k / (10 * sqrt 2) \<le> 14.5" by (simp add: field_simps)
  then show "1 / 2 + real k / (10 * sqrt 2) \<le> 15" by linarith
  have "0 \<le> real k / (10 * sqrt 2)" by simp
  then show "0 < 1 / 2 + real k / (10 * sqrt 2)" by linarith
qed

lemma diagonal_trace:
  assumes "last points = Vector3 (Fin (1 / 2 + real k / (10 * sqrt 2)))
                                 (Fin (1 / 2 + real k / (10 * sqrt 2))) (Fin 0)"
    and "k + n \<le> 200"
  shows "snd (field_line_loop [point_charge 1] (Fin 0.1) n points) = MaxSteps
       \<and> length (fst (field_line_loop [point_charge 1] (Fin 0.1) n points)) = length points + n"
  using assms
proof (induction n arbitrary: k points)
  case 0
  then show ?case by simp
next
  case (Suc n)
  define t where "t = 1 / 2 + real k / (10 * sqrt 2)"
  define d where "d = sqrt (t * t + t * t + 0 * 0)"
  have k: "k \<le> 200" "Suc k \<le> 200" using Suc.prems(2) by simp_all
  have tpos: "0 < t" and t15: "t \<le> 15" unfolding t_def using diagonal_bound [OF k(1)] by simp_all
  have thalf: "1 / 2 \<le> t" unfolding t_def by simp
  have d: "d = sqrt 2 * t"
  proof -
    have "t * t + t * t + 0 * 0 = 2 * t\<^sup>2" by (simp add: power2_eq_square)
    then have "d = sqrt (2 * t\<^sup>2)" by (simp add: d_def)
    also have "\<dots> = sqrt 2 * t" using tpos by (simp add: real_sqrt_mult)
    finally show ?thesis .
  qed
  have s1: "1 \<le> sqrt 2" by simp
  have dge: "1 / 2 \<le> d"
  proof -
    have "1 * t \<le> sqrt 2 * t" using s1 tpos by (intro mult_right_mono) simp_all
    then have "t \<le> d" using d by simp
    then show ?thesis using thalf by linarith
  qed
  have nxt: "t + t / d * 0.1 = 1 / 2 + real (Suc k) / (10 * sqrt 2)"
  proof -
    have td: "t / d = 1 / sqrt 2" using d tpos by simp
    have a: "1 / sqrt 2 * 0.1 = 1 / (10 * sqrt 2)" by simp
    have b: "real (Suc k) / (10 * sqrt 2) = real k / (10 * sqrt 2) + 1 / (10 * sqrt 2)"
      by (simp add: add_divide_distrib)
    show ?thesis unfolding td a b by (simp add: t_def)
  qed
  have n15: "\<not> 15 < \<bar>t + t / d * 0.1\<bar>"
    unfolding nxt using diagonal_bound [OF k(2)] by simp
  have weak: "\<not> coulomb_k * 1 / (t * t + t * t + 0 * 0) < 0.01"
  proof -
    have "t * t \<le> 15 * 15" using tpos t15 by (intro mult_mono) simp_all
    then have b: "t * t + t * t + 0 * 0 \<le> 450" by simp
    have p: "0 < t * t + t * t + 0 * 0" using tpos by simp
    have "0.01 * (t * t + t * t + 0 * 0) \<le> coulomb_k" using b by (simp add: coulomb_k_def)
    then have "0.01 \<le> coulomb_k * 1 / (t * t + t * t + 0 * 0)"
      using p by (simp add: field_simps)
    then show ?thesis by simp
  qed
  have step: "field_line_loop [point_charge 1] (Fin 0.1) (Suc n) points =
      field_line_loop [point_charge 1] (Fin 0.1) n
        (points @ [Vector3 (Fin (t + t / d * 0.1)) (Fin (t + t / d * 0.1)) (Fin (0 + 0 / d * 0.1))])"
    using single_charge_loop_step [where c = "point_charge 1" and cx = 0 and cy = 0 and cz = 0
      and qv = 1 and h = "0.1" and points = points and x = t and y = t and z = 0 and n = n]
      Suc.prems(1) dge weak n15
    by (simp add: t_def d_def)
  have "snd (field_line_loop [point_charge 1] (Fin 0.1) n
        (points @ [Vector3 (Fin (t + t / d * 0.1)) (Fin (t + t / d * 0.1)) (Fin (0 + 0 / d * 0.1))])) = MaxSteps
    \<and> length (fst (field_line_loop [point_charge 1] (Fin 0.1) n
        (points @ [Vector3 (Fin (t + t / d * 0.1)) (Fin (t + t / d * 0.1)) (Fin (0 + 0 / d * 0.1))])))
      = length (points @ [Vector3 (Fin (t + t / d * 0.1)) (Fin (t + t / d * 0.1)) (Fin (0 + 0 / d * 0.1))]) + n"
  proof (rule Suc.IH)
    show "last (points @ [Vector3 (Fin (t + t / d * 0.1)) (Fin (t + t / d * 0.1)) (Fin (0 + 0 / d * 0.1))]) =
      Vector3 (Fin (1 / 2 + real (Suc k) / (10 * sqrt 2))) (Fin (1 / 2 + real (Suc k) / (10 * sqrt 2))) (Fin 0)"
      using nxt by simp
    show "Suc k + n \<le> 200" using Suc.prems(2) by simp
  qed
  then show ?case unfolding step by simp
qed

lemma diagonal_seed:
  "trace_field_line (seed_point (1 / 2) (1 / 2)) [point_charge 1] None None
     = (calculateFieldLine (seed_point (1 / 2) (1 / 2)) [point_charge 1] None None, MaxSteps)
   \<and> length (calculateFieldLine (seed_point (1 / 2) (1 / 2)) [point_charge 1] None None) = 201"
proof -
  have "last [Vector3 (Fin (1 / 2)) (Fin (1 / 2)) (Fin 0)] =
      Vector3 (Fin (1 / 2 + real 0 / (10 * sqrt 2))) (Fin (1 / 2 + real 0 / (10 * sqrt 2))) (Fin 0)"
    by simp
  then have "snd (field_line_loop [point_charge 1] (Fin 0.1) 200 [Vector3 (Fin (1 / 2)) (Fin (1 / 2)) (Fin 0)]) = MaxSteps
       \<and> length (fst (field_line_loop [point_charge 1] (Fin 0.1) 200 [Vector3 (Fin (1 / 2)) (Fin (1 / 2)) (Fin 0)]))
          = length [Vector3 (Fin (1 / 2)) (Fin (1 / 2)) (Fin 0)] + 200"
    by (rule diagonal_trace) simp
  then show ?thesis
    by (simp add: calculateFieldLine_def trace_field_line_def prod_eq_iff)
qed




end
